theory Spec2Isabelle
  imports Main
begin

section \<open>Python strings\<close>

text \<open>
  A Python \<open>str\<close> is modelled as a \<^typ>\<open>string\<close>; a \<^typ>\<open>char\<close> stands for a code
  point below 256. The functions below are the \<open>str\<close> methods that
  \<open>simple_fastqc.py\<close> calls, restricted to that range.
\<close>

definition tab :: char where
  "tab = CHR 0x09"

definition nl :: char where
  "nl = CHR 0x0A"

text \<open>\<open>str.isspace\<close> on one character: the characters that \<open>str.rstrip()\<close> removes.\<close>

definition py_isspace :: "char \<Rightarrow> bool" where
  "py_isspace c = (let n = (of_char c :: nat) in
     (9 \<le> n \<and> n \<le> 13) \<or> (28 \<le> n \<and> n \<le> 32) \<or> n = 133 \<or> n = 160)"

definition rstrip :: "string \<Rightarrow> string" where
  "rstrip s = rev (dropWhile py_isspace (rev s))"

definition startswith :: "string \<Rightarrow> string \<Rightarrow> bool" where
  "startswith p s = (take (length p) s = p)"

definition removeprefix :: "string \<Rightarrow> string \<Rightarrow> string" where
  "removeprefix p s = (if startswith p s then drop (length p) s else s)"

text \<open>
  \<open>s.split("\t")\<close>: the fields between tabs; always at least one field.
  \<open>cur\<close> is the current field, reversed.
\<close>

fun split_from :: "string \<Rightarrow> string \<Rightarrow> string list" where
  "split_from cur [] = [rev cur]"
| "split_from cur (c # cs) =
     (if c = tab then rev cur # split_from [] cs else split_from (c # cur) cs)"

definition split_tab :: "string \<Rightarrow> string list" where
  "split_tab s = split_from [] s"

text \<open>\<open>sep.join(xs)\<close>.\<close>

fun join :: "string \<Rightarrow> string list \<Rightarrow> string" where
  "join sep [] = []"
| "join sep [x] = x"
| "join sep (x # y # ys) = x @ sep @ join sep (y # ys)"

section \<open>Errors, modules and dictionaries\<close>

text \<open>The exceptions that the code can raise, as values.\<close>

datatype error =
    AssertionError
  | IndexError
  | KeyError
  | ValueError
  | OverflowError
  | EmptyDataError
  | ParserError

text \<open>
  The dataclass \<open>FastQCModule\<close> with its three attributes. The attribute \<open>data\<close> holds a
  \<open>str\<close> in the base class, an optional data frame in \<open>OverrepresentedSequencesModule\<close> and a
  \<open>dict\<close> in \<open>BasicStatisticsModule\<close>, hence the type parameter.
\<close>

record 'd module_rec =
  name :: string
  data :: 'd
  status :: string

text \<open>
  A Python \<open>dict\<close> keeps insertion order: an association list with distinct keys.
  \<open>d[k] = v\<close> replaces the value in place when the key is present and appends otherwise.
\<close>

type_synonym ('k, 'v) dict = "('k \<times> 'v) list"

fun setitem :: "('k, 'v) dict \<Rightarrow> 'k \<Rightarrow> 'v \<Rightarrow> ('k, 'v) dict" where
  "setitem [] k v = [(k, v)]"
| "setitem ((k', v') # d) k v =
     (if k' = k then (k, v) # d else (k', v') # setitem d k v)"

definition getitem :: "('k, 'v) dict \<Rightarrow> 'k \<Rightarrow> error + 'v" where
  "getitem d k = (case map_of d k of None \<Rightarrow> Inl KeyError | Some v \<Rightarrow> Inr v)"

definition delitem :: "('k, 'v) dict \<Rightarrow> 'k \<Rightarrow> error + ('k, 'v) dict" where
  "delitem d k = (case map_of d k of None \<Rightarrow> Inl KeyError
     | Some v \<Rightarrow> Inr (filter (\<lambda>kv. fst kv \<noteq> k) d))"

text \<open>
  A pandas data frame as far as the code looks at it: the column labels and the rows.
  Cells are kept as the text of their field.
\<close>

record dataframe =
  columns :: "string list"
  rows :: "string list list"

text \<open>Values of a \<open>BasicStatisticsModule\<close> dictionary: text, or an \<open>int\<close> after coercion.\<close>

datatype pyval = PyStr string | PyInt int

text \<open>The three module classes; \<open>FastQCResults.modules\<close> holds instances of any of them.\<close>

datatype module =
    FastQCModule "string module_rec"
  | OverrepresentedSequencesModule "dataframe option module_rec"
  | BasicStatisticsModule "(string, pyval) dict module_rec"

section \<open>Numbers: \<open>int()\<close> and \<open>float()\<close> on strings\<close>

text \<open>
  \<open>int(s)\<close> and \<open>float(s)\<close> skip white space at both ends, read an optional sign and then
  digits, where single underscores may separate digits. \<open>None\<close> stands for \<open>ValueError\<close>.
\<close>

definition num_isspace :: "char \<Rightarrow> bool" where
  "num_isspace c = (let n = (of_char c :: nat) in
     (9 \<le> n \<and> n \<le> 13) \<or> n = 32 \<or> n = 133 \<or> n = 160)"

definition strip_num :: "string \<Rightarrow> string" where
  "strip_num s = rev (dropWhile num_isspace (rev (dropWhile num_isspace s)))"

definition is_digit :: "char \<Rightarrow> bool" where
  "is_digit c = (48 \<le> (of_char c :: nat) \<and> (of_char c :: nat) \<le> 57)"

definition digit_val :: "char \<Rightarrow> nat" where
  "digit_val c = (of_char c :: nat) - 48"

text \<open>An optional sign: whether it is a minus, and the rest.\<close>

fun split_sign :: "string \<Rightarrow> bool \<times> string" where
  "split_sign [] = (False, [])"
| "split_sign (c # cs) =
     (if c = CHR ''-'' then (True, cs)
      else if c = CHR ''+'' then (False, cs)
      else (False, c # cs))"

text \<open>
  After a digit: more digits, each possibly preceded by one underscore. Returns the value
  read so far (continuing from \<open>acc\<close>), the number of digits read, and the rest.
\<close>

fun digits :: "nat \<Rightarrow> nat \<Rightarrow> string \<Rightarrow> nat \<times> nat \<times> string" where
  "digits acc cnt [] = (acc, cnt, [])"
| "digits acc cnt [c] =
     (if is_digit c then (10 * acc + digit_val c, Suc cnt, []) else (acc, cnt, [c]))"
| "digits acc cnt (c # d # cs) =
     (if is_digit c then digits (10 * acc + digit_val c) (Suc cnt) (d # cs)
      else if c = CHR ''_'' \<and> is_digit d then digits (10 * acc + digit_val d) (Suc cnt) cs
      else (acc, cnt, c # d # cs))"

text \<open>A digit part: one digit, then \<^const>\<open>digits\<close>.\<close>

fun digitpart :: "nat \<Rightarrow> string \<Rightarrow> (nat \<times> nat \<times> string) option" where
  "digitpart acc [] = None"
| "digitpart acc (c # cs) =
     (if is_digit c then Some (digits (10 * acc + digit_val c) 1 cs) else None)"

definition signed :: "bool \<Rightarrow> nat \<Rightarrow> int" where
  "signed neg n = (if neg then - int n else int n)"

text \<open>\<open>int(s)\<close> for a string \<open>s\<close>, base ten.\<close>

definition py_int :: "string \<Rightarrow> int option" where
  "py_int s = (case split_sign (strip_num s) of (neg, r) \<Rightarrow>
     (case digitpart 0 r of
        None \<Rightarrow> None
      | Some (v, n, rest) \<Rightarrow> if rest = [] then Some (signed neg v) else None))"

text \<open>
  A Python \<open>float\<close> is a binary64 number: \<open>PyFin m e\<close> has the value \<open>m * 2 ^ e\<close>;
  the sign of zero is not kept.
\<close>

datatype pyfloat = PyFin int int | PyInf bool | PyNaN

text \<open>The number of binary digits of a natural number.\<close>

fun bitlen :: "nat \<Rightarrow> nat" where
  "bitlen n = (if n = 0 then 0 else Suc (bitlen (n div 2)))"

declare bitlen.simps [simp del]

text \<open>
  The binary64 number nearest to the positive fraction \<open>p / q\<close>, ties to even.
  \<open>floor_log2 p q\<close> is the exponent of the leading bit of \<open>p / q\<close>; the last bit kept has
  the exponent \<open>u\<close>, 52 below it (53 bits), or \<open>- 1074\<close> for a subnormal;
  \<open>round_div a b\<close> is \<open>a / b\<close> rounded to an integer; a result of \<open>2 ^ 1024\<close> or more
  is infinite.
\<close>

definition floor_log2 :: "nat \<Rightarrow> nat \<Rightarrow> int" where
  "floor_log2 p q =
     (let t = int (bitlen p) - int (bitlen q)
      in if (if 0 \<le> t then q * 2 ^ nat t \<le> p else q \<le> p * 2 ^ nat (- t))
         then t else t - 1)"

definition round_div :: "nat \<Rightarrow> nat \<Rightarrow> nat" where
  "round_div a b =
     (let d = a div b; r = a mod b
      in if b < 2 * r \<or> (2 * r = b \<and> odd d) then d + 1 else d)"

definition huge :: nat where
  "huge = 2 ^ 1024"

definition round_frac :: "nat \<Rightarrow> nat \<Rightarrow> pyfloat" where
  "round_frac p q =
     (let u = max (floor_log2 p q - 52) (- 1074);
          m = (if 0 \<le> u then round_div p (q * 2 ^ nat u)
               else round_div (p * 2 ^ nat (- u)) q)
      in if 0 \<le> u \<and> huge \<le> m * 2 ^ nat u then PyInf False
         else PyFin (int m) u)"

definition fneg :: "bool \<Rightarrow> pyfloat \<Rightarrow> pyfloat" where
  "fneg neg f = (if neg then
       (case f of PyFin m e \<Rightarrow> PyFin (- m) e | PyInf b \<Rightarrow> PyInf (\<not> b) | PyNaN \<Rightarrow> PyNaN)
     else f)"

text \<open>The binary64 number nearest to \<open>\<plusminus> m * 10 ^ e10\<close>.\<close>

definition to_binary64 :: "bool \<Rightarrow> nat \<Rightarrow> int \<Rightarrow> pyfloat" where
  "to_binary64 neg m e10 =
     (if m = 0 then PyFin 0 0
      else fneg neg (if 0 \<le> e10 then round_frac (m * 10 ^ nat e10) 1
                     else round_frac m (10 ^ nat (- e10))))"

definition lower :: "char \<Rightarrow> char" where
  "lower c = (if 65 \<le> (of_char c :: nat) \<and> (of_char c :: nat) \<le> 90
              then char_of ((of_char c :: nat) + 32) else c)"

text \<open>
  The digits of a float literal before the exponent: digit part, optional point, optional
  digit part, with a digit on at least one side of the point. Returns the digits read as
  one number, how many of them follow the point, and the rest.
\<close>

definition parse_mantissa :: "string \<Rightarrow> (nat \<times> nat \<times> string) option" where
  "parse_mantissa s =
     (case digitpart 0 s of
        Some (v, n, r) \<Rightarrow>
          (case r of
             [] \<Rightarrow> Some (v, 0, [])
           | c # r' \<Rightarrow>
               if c = CHR ''.'' then
                 (case digitpart v r' of
                    None \<Rightarrow> Some (v, 0, r')
                  | Some (v', n', r'') \<Rightarrow> Some (v', n', r''))
               else Some (v, 0, r))
      | None \<Rightarrow>
          (case s of
             [] \<Rightarrow> None
           | c # r' \<Rightarrow> if c = CHR ''.'' then digitpart 0 r' else None))"

text \<open>The exponent part, up to the end of the string: empty, or \<open>e\<close>, sign, digit part.\<close>

definition parse_exponent :: "string \<Rightarrow> int option" where
  "parse_exponent r =
     (case r of
        [] \<Rightarrow> Some 0
      | c # r' \<Rightarrow>
          if c = CHR ''e'' \<or> c = CHR ''E'' then
            (case split_sign r' of (neg, r'') \<Rightarrow>
               (case digitpart 0 r'' of
                  None \<Rightarrow> None
                | Some (v, n, rest) \<Rightarrow> if rest = [] then Some (signed neg v) else None))
          else None)"

text \<open>\<open>float(s)\<close> for a string \<open>s\<close>.\<close>

definition py_float :: "string \<Rightarrow> pyfloat option" where
  "py_float s = (case split_sign (strip_num s) of (neg, r) \<Rightarrow>
     if map lower r = ''inf'' \<or> map lower r = ''infinity'' then Some (PyInf neg)
     else if map lower r = ''nan'' then Some PyNaN
     else (case parse_mantissa r of
             None \<Rightarrow> None
           | Some (m, n, r') \<Rightarrow>
               (case parse_exponent r' of
                  None \<Rightarrow> None
                | Some e \<Rightarrow> Some (to_binary64 neg m (e - int n)))))"

text \<open>\<open>i == f\<close> for an \<open>int\<close> and a \<open>float\<close>: Python compares the exact values.\<close>

fun int_eq_float :: "int \<Rightarrow> pyfloat \<Rightarrow> bool" where
  "int_eq_float i (PyFin m e) =
     (if 0 \<le> e then i = m * 2 ^ nat e else i * 2 ^ nat (- e) = m)"
| "int_eq_float i (PyInf b) = False"
| "int_eq_float i PyNaN = False"

text \<open>\<open>float(i)\<close> for an \<open>int\<close>: \<open>OverflowError\<close> when the nearest binary64 is infinite.\<close>

definition float_of_int :: "int \<Rightarrow> error + pyfloat" where
  "float_of_int i =
     (case to_binary64 (i < 0) (nat \<bar>i\<bar>) 0 of
        PyInf b \<Rightarrow> Inl OverflowError
      | f \<Rightarrow> Inr f)"

section \<open>The module classes\<close>

text \<open>\<open>FastQCModule.from_module\<close>: a copy of the module.\<close>

definition FastQCModule_from_module :: "string module_rec \<Rightarrow> string module_rec" where
  "FastQCModule_from_module m = \<lparr>name = name m, data = data m, status = status m\<rparr>"

text \<open>
  \<open>DataFrame.rename(columns=f)\<close>, and \<open>read_csv_or_empty\<close>. The reader
  \<open>pd.read_csv(io.StringIO(data), sep="\t")\<close> belongs to pandas and is a parameter \<open>rd\<close>
  of the model: it returns a data frame or raises.
\<close>

definition rename_columns :: "(string \<Rightarrow> string) \<Rightarrow> dataframe \<Rightarrow> dataframe" where
  "rename_columns f df = \<lparr>columns = map f (columns df), rows = rows df\<rparr>"

definition read_csv_or_empty ::
  "(string \<Rightarrow> error + dataframe) \<Rightarrow> string \<Rightarrow> error + dataframe option" where
  "read_csv_or_empty rd d =
     (if d \<noteq> [] then
        (case rd d of
           Inl e \<Rightarrow> Inl e
         | Inr df \<Rightarrow> Inr (Some (rename_columns (removeprefix ''#'') df)))
      else Inr None)"

definition OverrepresentedSequencesModule_from_module ::
  "(string \<Rightarrow> error + dataframe) \<Rightarrow> string module_rec
     \<Rightarrow> error + dataframe option module_rec" where
  "OverrepresentedSequencesModule_from_module rd m =
     (case read_csv_or_empty rd (data m) of
        Inl e \<Rightarrow> Inl e
      | Inr t \<Rightarrow> Inr \<lparr>name = name m, data = t, status = status m\<rparr>)"

text \<open>
  \<open>str.splitlines()\<close>: a line ends at a line feed, a carriage return (with a following
  line feed), or one of the code points 11, 12, 28, 29, 30, 133; the text after the last
  line end is a line when it is not empty. \<open>cur\<close> is the current line, reversed.
\<close>

definition is_linebreak :: "char \<Rightarrow> bool" where
  "is_linebreak c = (let n = (of_char c :: nat) in
     (10 \<le> n \<and> n \<le> 13) \<or> (28 \<le> n \<and> n \<le> 30) \<or> n = 133)"

fun splitlines_from :: "string \<Rightarrow> string \<Rightarrow> string list" where
  "splitlines_from cur [] = (if cur = [] then [] else [rev cur])"
| "splitlines_from cur [c] =
     (if is_linebreak c then [rev cur] else [rev (c # cur)])"
| "splitlines_from cur (c # d # cs) =
     (if c = CHR 0x0D \<and> d = nl then rev cur # splitlines_from [] cs
      else if is_linebreak c then rev cur # splitlines_from [] (d # cs)
      else splitlines_from (c # cur) (d # cs))"

definition splitlines :: "string \<Rightarrow> string list" where
  "splitlines s = splitlines_from [] s"

text \<open>
  \<open>dict(pairs)\<close> for an iterable of lists: every element must have exactly two items,
  else \<open>ValueError\<close>; a later pair with the same key replaces the value.
\<close>

fun dict_of_lists ::
  "(string, pyval) dict \<Rightarrow> string list list \<Rightarrow> error + (string, pyval) dict" where
  "dict_of_lists d [] = Inr d"
| "dict_of_lists d (x # xs) =
     (case x of
        [k, v] \<Rightarrow> dict_of_lists (setitem d k (PyStr v)) xs
      | _ \<Rightarrow> Inl ValueError)"

text \<open>
  The body of the loop \<open>for k in keys\<close> of \<open>BasicStatisticsModule.from_module\<close>:
  a key that starts with \<open>#\<close> is deleted; otherwise \<open>int\<close> and \<open>float\<close> are applied to the
  value, and the value is replaced by the \<open>int\<close> when both succeed and are equal; a
  \<open>ValueError\<close> of either leaves the value as it is.
\<close>

definition coerce_key ::
  "(string, pyval) dict \<Rightarrow> string \<Rightarrow> error + (string, pyval) dict" where
  "coerce_key d k =
     (if startswith ''#'' k then delitem d k
      else
        (case getitem d k of
           Inl e \<Rightarrow> Inl e
         | Inr (PyStr v) \<Rightarrow>
             (case py_int v of
                None \<Rightarrow> Inr d
              | Some as_int \<Rightarrow>
                  (case py_float v of
                     None \<Rightarrow> Inr d
                   | Some as_float \<Rightarrow>
                       if int_eq_float as_int as_float
                       then Inr (setitem d k (PyInt as_int)) else Inr d))
         | Inr (PyInt i) \<Rightarrow>
             (case float_of_int i of
                Inl e \<Rightarrow> Inl e
              | Inr as_float \<Rightarrow>
                  if int_eq_float i as_float then Inr (setitem d k (PyInt i)) else Inr d)))"

fun coerce_keys ::
  "(string, pyval) dict \<Rightarrow> string list \<Rightarrow> error + (string, pyval) dict" where
  "coerce_keys d [] = Inr d"
| "coerce_keys d (k # ks) =
     (case coerce_key d k of Inl e \<Rightarrow> Inl e | Inr d' \<Rightarrow> coerce_keys d' ks)"

definition BasicStatisticsModule_from_module ::
  "string module_rec \<Rightarrow> error + (string, pyval) dict module_rec" where
  "BasicStatisticsModule_from_module m =
     (case dict_of_lists [] (map split_tab (splitlines (data m))) of
        Inl e \<Rightarrow> Inl e
      | Inr data_dict \<Rightarrow>
          (case getitem data_dict ''##FastQC'' of
             Inl e \<Rightarrow> Inl e
           | Inr v \<Rightarrow>
               (let data_dict1 = setitem data_dict ''FastQC'' v;
                    keys = map fst data_dict1
                in case coerce_keys data_dict1 keys of
                     Inl e \<Rightarrow> Inl e
                   | Inr data_dict2 \<Rightarrow>
                       Inr \<lparr>name = name m, data = data_dict2, status = status m\<rparr>)))"

section \<open>The results and the parser\<close>

record FastQCResults =
  modules :: "(string, module) dict"

definition results :: "FastQCResults \<Rightarrow> (string, module) dict" where
  "results r = modules r"

text \<open>\<open>module_classes\<close>, and \<open>module_classes.get(name, FastQCModule)\<close>.\<close>

datatype module_class =
  FastQCModule_class | OverrepresentedSequencesModule_class | BasicStatisticsModule_class

definition module_classes :: "(string, module_class) dict" where
  "module_classes =
     [(''Overrepresented sequences'', OverrepresentedSequencesModule_class),
      (''Basic Statistics'', BasicStatisticsModule_class)]"

definition get_class :: "string \<Rightarrow> module_class" where
  "get_class n = (case map_of module_classes n of None \<Rightarrow> FastQCModule_class | Some c \<Rightarrow> c)"

fun from_module ::
  "(string \<Rightarrow> error + dataframe) \<Rightarrow> module_class \<Rightarrow> string module_rec \<Rightarrow> error + module" where
  "from_module rd FastQCModule_class m = Inr (FastQCModule (FastQCModule_from_module m))"
| "from_module rd OverrepresentedSequencesModule_class m =
     (case OverrepresentedSequencesModule_from_module rd m of
        Inl e \<Rightarrow> Inl e | Inr r \<Rightarrow> Inr (OverrepresentedSequencesModule r))"
| "from_module rd BasicStatisticsModule_class m =
     (case BasicStatisticsModule_from_module m of
        Inl e \<Rightarrow> Inl e | Inr r \<Rightarrow> Inr (BasicStatisticsModule r))"

text \<open>
  The local variables of \<open>parse_from_file\<close>: the open module \<open>mod\<close> (its \<open>data\<close> is
  \<open>None\<close> until the module is closed), \<open>data_lines\<close> and \<open>results\<close>.
\<close>

record parser_state =
  cur_mod :: "string option module_rec option"
  data_lines :: "string list"
  result_set :: FastQCResults

definition init_state :: parser_state where
  "init_state = \<lparr>cur_mod = None, data_lines = [], result_set = \<lparr>modules = []\<rparr>\<rparr>"

text \<open>One round of the loop \<open>for l in fastqc_file\<close>.\<close>

definition parse_line ::
  "(string \<Rightarrow> error + dataframe) \<Rightarrow> parser_state \<Rightarrow> string \<Rightarrow> error + parser_state" where
  "parse_line rd s l0 =
     (let l = rstrip l0 in
      if startswith ''>>'' l then
        (let l1 = removeprefix ''>>'' l in
         case cur_mod s of
           None \<Rightarrow>
             (let res = split_tab l1 in
              if length res < 2 then Inl IndexError
              else Inr (s\<lparr>cur_mod := Some \<lparr>name = res ! 0, data = None, status = res ! 1\<rparr>\<rparr>))
         | Some m \<Rightarrow>
             if l1 = ''END_MODULE'' then
               (case from_module rd (get_class (name m))
                       \<lparr>name = name m, data = join [nl] (data_lines s), status = status m\<rparr> of
                  Inl e \<Rightarrow> Inl e
                | Inr sm \<Rightarrow>
                    Inr \<lparr>cur_mod = None, data_lines = [],
                         result_set = \<lparr>modules = setitem (results (result_set s)) (name m) sm\<rparr>\<rparr>)
             else Inl AssertionError)
      else Inr (s\<lparr>data_lines := data_lines s @ [l]\<rparr>))"

fun parse_lines ::
  "(string \<Rightarrow> error + dataframe) \<Rightarrow> parser_state \<Rightarrow> string list \<Rightarrow> error + parser_state" where
  "parse_lines rd s [] = Inr s"
| "parse_lines rd s (l # ls) =
     (case parse_line rd s l of Inl e \<Rightarrow> Inl e | Inr s' \<Rightarrow> parse_lines rd s' ls)"

text \<open>
  \<open>FastQCResults.parse_from_file\<close>, on the lines that iterating over the file yields.
\<close>

definition parse_from_file ::
  "(string \<Rightarrow> error + dataframe) \<Rightarrow> string list \<Rightarrow> error + FastQCResults" where
  "parse_from_file rd ls =
     (case parse_lines rd init_state ls of
        Inl e \<Rightarrow> Inl e
      | Inr s \<Rightarrow> Inr (result_set s))"

text \<open>Looking a module up by name in the results: \<open>r.results[n]\<close>.\<close>

definition lookup_module :: "FastQCResults \<Rightarrow> string \<Rightarrow> (error + module) \<times> FastQCResults" where
  "lookup_module r n = (getitem (results r) n, r)"

text \<open>
  The attributes \<open>name\<close> and \<open>status\<close> of a module of any class, and \<open>status_dict\<close>.
\<close>

fun name_of :: "module \<Rightarrow> string" where
  "name_of (FastQCModule m) = name m"
| "name_of (OverrepresentedSequencesModule m) = name m"
| "name_of (BasicStatisticsModule m) = name m"

fun status_of :: "module \<Rightarrow> string" where
  "status_of (FastQCModule m) = status m"
| "status_of (OverrepresentedSequencesModule m) = status m"
| "status_of (BasicStatisticsModule m) = status m"

definition status_dict :: "FastQCResults \<Rightarrow> (string, string) dict" where
  "status_dict r =
     fold (\<lambda>m d. setitem d (name_of m) (status_of m)) (map snd (results r)) []"

section \<open>Vocabulary for the properties\<close>

text \<open>
  A reader to put in the place of the parameter \<open>rd\<close>: the first non-empty line holds the
  column labels, every further non-empty line is a row, fields are separated by tabs, and a
  row may not have more fields than there are labels.
\<close>

definition tsv_reader :: "string \<Rightarrow> error + dataframe" where
  "tsv_reader d =
     (case filter (\<lambda>l. l \<noteq> []) (splitlines d) of
        [] \<Rightarrow> Inl EmptyDataError
      | h # rs \<Rightarrow>
          if list_all (\<lambda>r. length (split_tab r) \<le> length (split_tab h)) rs
          then Inr \<lparr>columns = split_tab h, rows = map split_tab rs\<rparr>
          else Inl ParserError)"

text \<open>
  The tests that \<open>parse_from_file\<close> makes on a line: after \<open>rstrip\<close> it starts with
  \<open>>>\<close> (a marker line), and it is the terminator \<open>>>END_MODULE\<close>. A marker line
  that is not the terminator is a module header.
\<close>

definition is_marker :: "string \<Rightarrow> bool" where
  "is_marker l = startswith ''>>'' (rstrip l)"

definition is_terminator :: "string \<Rightarrow> bool" where
  "is_terminator l = (rstrip l = ''>>END_MODULE'')"

section \<open>Properties of the parser\<close>

lemma parse_lines_append:
  "parse_lines rd s (xs @ ys) =
     (case parse_lines rd s xs of Inl e \<Rightarrow> Inl e | Inr s' \<Rightarrow> parse_lines rd s' ys)"
  by (induction xs arbitrary: s) (auto split: sum.splits)

lemma parse_line_plain:
  "\<not> is_marker l \<Longrightarrow> parse_line rd s l = Inr (s\<lparr>data_lines := data_lines s @ [rstrip l]\<rparr>)"
  by (simp add: parse_line_def is_marker_def Let_def)

lemma parse_lines_plain:
  "list_all (\<lambda>l. \<not> is_marker l) ls \<Longrightarrow>
   parse_lines rd s ls = Inr (s\<lparr>data_lines := data_lines s @ map rstrip ls\<rparr>)"
  by (induction ls arbitrary: s) (simp_all add: parse_line_plain)

lemma parse_line_header:
  "cur_mod s = None \<Longrightarrow> is_marker h \<Longrightarrow>
   split_tab (removeprefix ''>>'' (rstrip h)) = n # st # rest \<Longrightarrow>
   parse_line rd s h = Inr (s\<lparr>cur_mod := Some \<lparr>name = n, data = None, status = st\<rparr>\<rparr>)"
  by (simp add: parse_line_def is_marker_def Let_def)

lemma startswith_end_module: "startswith ''>>'' ''>>END_MODULE''"
  by (simp add: startswith_def)

lemma terminator_marker: "is_terminator t \<Longrightarrow> is_marker t"
  unfolding is_terminator_def is_marker_def using startswith_end_module by simp

lemma terminator_rest: "is_terminator t \<Longrightarrow> removeprefix ''>>'' (rstrip t) = ''END_MODULE''"
  by (simp add: is_terminator_def removeprefix_def startswith_def)

lemma parse_line_close:
  "cur_mod s = Some m \<Longrightarrow> is_terminator t \<Longrightarrow>
   parse_line rd s t =
     (case from_module rd (get_class (name m))
             \<lparr>name = name m, data = join [nl] (data_lines s), status = status m\<rparr> of
        Inl e \<Rightarrow> Inl e
      | Inr sm \<Rightarrow>
          Inr \<lparr>cur_mod = None, data_lines = [],
               result_set = \<lparr>modules = setitem (results (result_set s)) (name m) sm\<rparr>\<rparr>)"
  using terminator_marker [of t] terminator_rest [of t]
  by (simp add: parse_line_def is_marker_def Let_def)

lemma startswith_split: "startswith p s \<Longrightarrow> p @ removeprefix p s = s"
proof -
  assume a: "startswith p s"
  then have "take (length p) s = p" by (simp add: startswith_def)
  then have "p @ drop (length p) s = s" by (metis append_take_drop_id)
  with a show ?thesis by (simp add: removeprefix_def)
qed

lemma header_rest:
  assumes "is_marker l" and "\<not> is_terminator l"
  shows "removeprefix ''>>'' (rstrip l) \<noteq> ''END_MODULE''"
proof
  assume e: "removeprefix ''>>'' (rstrip l) = ''END_MODULE''"
  from assms(1) have "''>>'' @ removeprefix ''>>'' (rstrip l) = rstrip l"
    unfolding is_marker_def by (rule startswith_split)
  with e have "rstrip l = ''>>'' @ ''END_MODULE''" by simp
  then have "is_terminator l" unfolding is_terminator_def by simp
  with assms(2) show False by simp
qed

lemma parse_line_nested:
  "cur_mod s = Some m \<Longrightarrow> is_marker l \<Longrightarrow> \<not> is_terminator l \<Longrightarrow>
   parse_line rd s l = Inl AssertionError"
  using header_rest [of l] by (simp add: parse_line_def is_marker_def Let_def)

lemma parse_line_stray:
  "cur_mod s = None \<Longrightarrow> is_terminator l \<Longrightarrow> parse_line rd s l = Inl IndexError"
  using terminator_marker [of l] terminator_rest [of l]
  by (simp add: parse_line_def is_marker_def Let_def tab_def split_tab_def)

lemma get_class_default:
  "n \<noteq> ''Overrepresented sequences'' \<Longrightarrow> n \<noteq> ''Basic Statistics'' \<Longrightarrow>
   get_class n = FastQCModule_class"
  by (simp add: get_class_def module_classes_def)


text \<open>
  Claim C1, as stated: a report that opens a module and ends without \<open>>>END_MODULE\<close>
  makes \<open>parse_from_file\<close> fail. On the report below, a header line and one body line,
  the code returns an (empty) result set instead.
\<close>

theorem C1_unterminated_counterexample:
  "parse_from_file tsv_reader
     [''>>Per base sequence quality'' @ [tab] @ ''pass'' @ [nl],
      ''#Base'' @ [tab] @ ''Mean'' @ [nl]] = Inr \<lparr>modules = []\<rparr>"
  by code_simp

text \<open>
  Claim C1, amended: when the lines \<open>pre\<close> leave the parser outside a module, and a header
  line with a name and a status follows, and then only lines that are not markers up to the
  end of the input, \<open>parse_from_file\<close> does not fail: it returns the results of \<open>pre\<close>,
  and the open module with its lines is dropped.
\<close>

theorem C1_unterminated_module_dropped:
  assumes "parse_lines rd init_state pre = Inr s"
    and "cur_mod s = None"
    and "is_marker h"
    and "2 \<le> length (split_tab (removeprefix ''>>'' (rstrip h)))"
    and "list_all (\<lambda>l. \<not> is_marker l) body"
  shows "parse_from_file rd (pre @ h # body) = Inr (result_set s) \<and>
         parse_from_file rd (pre @ h # body) = parse_from_file rd pre"
proof -
  obtain n st rest where sp: "split_tab (removeprefix ''>>'' (rstrip h)) = n # st # rest"
    using assms(4) by (cases "split_tab (removeprefix ''>>'' (rstrip h))" rule: list.exhaust;
      cases "tl (split_tab (removeprefix ''>>'' (rstrip h)))" rule: list.exhaust) auto
  let ?s1 = "s\<lparr>cur_mod := Some \<lparr>name = n, data = None, status = st\<rparr>\<rparr>"
  have h: "parse_line rd s h = Inr ?s1"
    using parse_line_header [OF assms(2) assms(3) sp] .
  have "parse_lines rd init_state (pre @ h # body) = parse_lines rd ?s1 body"
    by (simp add: parse_lines_append assms(1) h)
  also have "\<dots> = Inr (?s1\<lparr>data_lines := data_lines ?s1 @ map rstrip body\<rparr>)"
    using parse_lines_plain [OF assms(5)] .
  finally show ?thesis
    by (simp add: parse_from_file_def assms(1))
qed

theorem C1_unterminated_module_dropped_witness:
  "parse_from_file tsv_reader
     [''>>Adapter Content'' @ [tab] @ ''pass'', ''>>END_MODULE'',
      ''>>Per base sequence quality'' @ [tab] @ ''warn'', ''#Base'' @ [tab] @ ''Mean'']
   = Inr \<lparr>modules = [(''Adapter Content'',
        FastQCModule \<lparr>name = ''Adapter Content'', data = [], status = ''pass''\<rparr>)]\<rparr>"
proof -
  let ?s = "\<lparr>cur_mod = None, data_lines = [],
             result_set = \<lparr>modules = [(''Adapter Content'',
               FastQCModule \<lparr>name = ''Adapter Content'', data = [], status = ''pass''\<rparr>)]\<rparr>\<rparr>"
  have 1: "parse_lines tsv_reader init_state
             [''>>Adapter Content'' @ [tab] @ ''pass'', ''>>END_MODULE''] = Inr ?s"
    by code_simp
  have 2: "cur_mod ?s = None" by simp
  have 3: "is_marker (''>>Per base sequence quality'' @ [tab] @ ''warn'')" by code_simp
  have 4: "2 \<le> length (split_tab (removeprefix ''>>''
             (rstrip (''>>Per base sequence quality'' @ [tab] @ ''warn''))))" by code_simp
  have 5: "list_all (\<lambda>l. \<not> is_marker l) [''#Base'' @ [tab] @ ''Mean'']" by code_simp
  show ?thesis
    using C1_unterminated_module_dropped [OF 1 2 3 4 5] by simp
qed

text \<open>
  Claim C4: when the parser has read the lines \<open>pre\<close> without error, then a module header
  line read inside a module makes the parse fail (the \<open>assert\<close> raises
  \<open>AssertionError\<close>), and a terminator line read outside a module makes it fail too
  (\<open>res[1]\<close> raises \<open>IndexError\<close>), whatever follows.
\<close>

theorem C4_protocol_violation:
  "parse_lines rd init_state pre = Inr s \<Longrightarrow>
   (cur_mod s \<noteq> None \<and> is_marker l \<and> \<not> is_terminator l
      \<longrightarrow> parse_from_file rd (pre @ l # post) = Inl AssertionError) \<and>
   (cur_mod s = None \<and> is_terminator l
      \<longrightarrow> parse_from_file rd (pre @ l # post) = Inl IndexError)"
  by (auto simp: parse_from_file_def parse_lines_append parse_line_nested parse_line_stray)

theorem C4_protocol_violation_witness:
  "parse_from_file tsv_reader
     [''>>Adapter Content'' @ [tab] @ ''pass'', ''>>Kmer Content'' @ [tab] @ ''pass'',
      ''>>END_MODULE''] = Inl AssertionError \<and>
   parse_from_file tsv_reader [''>>END_MODULE'', ''>>Kmer Content'' @ [tab] @ ''pass'']
     = Inl IndexError"
proof -
  let ?s = "\<lparr>cur_mod = Some \<lparr>name = ''Adapter Content'', data = None, status = ''pass''\<rparr>,
             data_lines = [], result_set = \<lparr>modules = []\<rparr>\<rparr>"
  have 1: "parse_lines tsv_reader init_state [''>>Adapter Content'' @ [tab] @ ''pass''] = Inr ?s"
    by code_simp
  have 2: "cur_mod ?s \<noteq> None \<and> is_marker (''>>Kmer Content'' @ [tab] @ ''pass'')
           \<and> \<not> is_terminator (''>>Kmer Content'' @ [tab] @ ''pass'')"
    by code_simp
  have 3: "parse_lines tsv_reader init_state [] = Inr init_state" by simp
  have 4: "cur_mod init_state = None \<and> is_terminator ''>>END_MODULE''" by code_simp
  show ?thesis
    using C4_protocol_violation [OF 1, of "''>>Kmer Content'' @ [tab] @ ''pass''" "[''>>END_MODULE'']"]
      C4_protocol_violation [OF 3, of "''>>END_MODULE''" "[''>>Kmer Content'' @ [tab] @ ''pass'']"]
      2 4
    by simp
qed


section \<open>Properties of the module classes and the results\<close>

text \<open>
  Claim C7: for a module name other than \<open>Overrepresented sequences\<close> and
  \<open>Basic Statistics\<close>, the class looked up in \<open>module_classes\<close> is the default one, and
  its \<open>from_module\<close> succeeds and returns the name, the data and the status unchanged;
  closing such a module stores the record with the joined lines as its data.
\<close>

theorem C7_unmapped_default:
  "n \<noteq> ''Overrepresented sequences'' \<and> n \<noteq> ''Basic Statistics'' \<longrightarrow>
     from_module rd (get_class n) \<lparr>name = n, data = d, status = st\<rparr>
       = Inr (FastQCModule \<lparr>name = n, data = d, status = st\<rparr>) \<and>
     (cur_mod s = Some \<lparr>name = n, data = None, status = st\<rparr> \<and> is_terminator t \<longrightarrow>
        parse_line rd s t =
          Inr \<lparr>cur_mod = None, data_lines = [],
               result_set = \<lparr>modules = setitem (results (result_set s)) n
                 (FastQCModule \<lparr>name = n, data = join [nl] (data_lines s), status = st\<rparr>)\<rparr>\<rparr>)"
  by (auto simp: get_class_default FastQCModule_from_module_def parse_line_close)

theorem C7_unmapped_default_witness:
  "from_module tsv_reader (get_class ''Custom Module'')
     \<lparr>name = ''Custom Module'', data = ''a  b'' @ [nl] @ ''#c'', status = ''odd''\<rparr>
     = Inr (FastQCModule
         \<lparr>name = ''Custom Module'', data = ''a  b'' @ [nl] @ ''#c'', status = ''odd''\<rparr>) \<and>
   parse_line tsv_reader
     \<lparr>cur_mod = Some \<lparr>name = ''Custom Module'', data = None, status = ''odd''\<rparr>,
      data_lines = [''a  b'', ''#c''], result_set = \<lparr>modules = []\<rparr>\<rparr> ''>>END_MODULE''
     = Inr \<lparr>cur_mod = None, data_lines = [],
            result_set = \<lparr>modules = [(''Custom Module'', FastQCModule
              \<lparr>name = ''Custom Module'', data = ''a  b'' @ [nl] @ ''#c'',
               status = ''odd''\<rparr>)]\<rparr>\<rparr>"
proof -
  let ?s = "\<lparr>cur_mod = Some \<lparr>name = ''Custom Module'', data = None, status = ''odd''\<rparr>,
             data_lines = [''a  b'', ''#c''], result_set = \<lparr>modules = []\<rparr>\<rparr>"
  have 1: "''Custom Module'' \<noteq> ''Overrepresented sequences'' \<and>
           ''Custom Module'' \<noteq> ''Basic Statistics''" by simp
  have 2: "cur_mod ?s = Some \<lparr>name = ''Custom Module'', data = None, status = ''odd''\<rparr> \<and>
           is_terminator ''>>END_MODULE''" by code_simp
  show ?thesis
    using C7_unmapped_default [of "''Custom Module''" tsv_reader "''a  b'' @ [nl] @ ''#c''"
        "''odd''" ?s "''>>END_MODULE''"] 1 2
    by (simp add: results_def)
qed

text \<open>
  Claim C8: for each of the three classes, the module that \<open>from_module\<close> returns has
  the name and the status of the module it was given.
\<close>

theorem C8_name_status_preserved:
  "name (FastQCModule_from_module m) = name m \<and>
   status (FastQCModule_from_module m) = status m \<and>
   (\<forall>r. OverrepresentedSequencesModule_from_module rd m = Inr r
        \<longrightarrow> name r = name m \<and> status r = status m) \<and>
   (\<forall>r. BasicStatisticsModule_from_module m = Inr r
        \<longrightarrow> name r = name m \<and> status r = status m) \<and>
   (\<forall>c sm. from_module rd c m = Inr sm
        \<longrightarrow> name_of sm = name m \<and> status_of sm = status m)"
proof -
  have a: "name r = name m \<and> status r = status m"
    if "OverrepresentedSequencesModule_from_module rd m = Inr r" for r
    using that by (auto simp: OverrepresentedSequencesModule_from_module_def split: sum.splits)
  have b: "name r = name m \<and> status r = status m"
    if "BasicStatisticsModule_from_module m = Inr r" for r
    using that by (auto simp: BasicStatisticsModule_from_module_def Let_def split: sum.splits)
  have c: "name_of sm = name m \<and> status_of sm = status m"
    if "from_module rd c m = Inr sm" for c sm
    using that a b by (cases c) (auto simp: FastQCModule_from_module_def split: sum.splits)
  show ?thesis using a b c by (simp add: FastQCModule_from_module_def)
qed

text \<open>
  Claim C9: looking up a name that is not a key of the results raises \<open>KeyError\<close>, and
  the results are as they were.
\<close>

theorem C9_lookup_absent:
  "n \<notin> fst ` set (results r) \<Longrightarrow> lookup_module r n = (Inl KeyError, r)"
proof -
  assume "n \<notin> fst ` set (results r)"
  then have "map_of (results r) n = None" by (simp add: map_of_eq_None_iff)
  then show ?thesis by (simp add: lookup_module_def getitem_def)
qed

text \<open>
  Claim C10: lines that are not markers, read outside a module, are not an error: they
  are appended to \<open>data_lines\<close>, and they are the first lines of the data of the next
  module that is closed.
\<close>

theorem C10_outside_lines_kept:
  assumes "cur_mod s = None"
    and "list_all (\<lambda>l. \<not> is_marker l) pre"
    and "is_marker h"
    and "split_tab (removeprefix ''>>'' (rstrip h)) = n # st # rest"
    and "list_all (\<lambda>l. \<not> is_marker l) body"
    and "is_terminator t"
  shows "parse_lines rd s pre = Inr (s\<lparr>data_lines := data_lines s @ map rstrip pre\<rparr>) \<and>
         parse_lines rd s (pre @ h # body @ [t]) =
           (case from_module rd (get_class n)
                   \<lparr>name = n,
                    data = join [nl] (data_lines s @ map rstrip pre @ map rstrip body),
                    status = st\<rparr> of
              Inl e \<Rightarrow> Inl e
            | Inr sm \<Rightarrow>
                Inr \<lparr>cur_mod = None, data_lines = [],
                     result_set = \<lparr>modules = setitem (results (result_set s)) n sm\<rparr>\<rparr>)"
proof -
  let ?s1 = "s\<lparr>data_lines := data_lines s @ map rstrip pre\<rparr>"
  let ?s2 = "?s1\<lparr>cur_mod := Some \<lparr>name = n, data = None, status = st\<rparr>\<rparr>"
  let ?s3 = "?s2\<lparr>data_lines := data_lines ?s2 @ map rstrip body\<rparr>"
  have 1: "parse_lines rd s pre = Inr ?s1"
    using parse_lines_plain [OF assms(2)] .
  have 2: "parse_line rd ?s1 h = Inr ?s2"
    using parse_line_header [of ?s1, OF _ assms(3) assms(4)] assms(1) by simp
  have 3: "parse_lines rd ?s2 body = Inr ?s3"
    using parse_lines_plain [OF assms(5)] .
  have 4: "cur_mod ?s3 = Some \<lparr>name = n, data = None, status = st\<rparr>" by simp
  have "parse_lines rd s (pre @ h # body @ [t]) = parse_line rd ?s3 t"
    by (simp add: parse_lines_append 1 2 3 split: sum.splits)
  then show ?thesis
    using 1 parse_line_close [OF 4 assms(6)] by (simp cong: sum.case_cong)
qed


theorem C8_name_status_preserved_witness:
  "OverrepresentedSequencesModule_from_module tsv_reader
     \<lparr>name = ''Overrepresented sequences'', data = ''#Sequence'' @ [tab] @ ''Count'',
      status = ''warn''\<rparr>
     = Inr \<lparr>name = ''Overrepresented sequences'',
            data = Some \<lparr>columns = [''Sequence'', ''Count''], rows = []\<rparr>, status = ''warn''\<rparr> \<and>
   BasicStatisticsModule_from_module
     \<lparr>name = ''Basic Statistics'', data = ''##FastQC'' @ [tab] @ ''0.11.9'', status = ''pass''\<rparr>
     = Inr \<lparr>name = ''Basic Statistics'', data = [(''FastQC'', PyStr ''0.11.9'')],
            status = ''pass''\<rparr> \<and>
   name_of (OverrepresentedSequencesModule \<lparr>name = ''Overrepresented sequences'',
            data = Some \<lparr>columns = [''Sequence'', ''Count''], rows = []\<rparr>, status = ''warn''\<rparr>)
     = ''Overrepresented sequences''"
proof -
  let ?m1 = "\<lparr>name = ''Overrepresented sequences'', data = ''#Sequence'' @ [tab] @ ''Count'',
      status = ''warn''\<rparr>"
  let ?r1 = "\<lparr>name = ''Overrepresented sequences'',
            data = Some \<lparr>columns = [''Sequence'', ''Count''], rows = []\<rparr>, status = ''warn''\<rparr>"
  let ?m2 = "\<lparr>name = ''Basic Statistics'', data = ''##FastQC'' @ [tab] @ ''0.11.9'',
      status = ''pass''\<rparr>"
  let ?r2 = "\<lparr>name = ''Basic Statistics'', data = [(''FastQC'', PyStr ''0.11.9'')],
            status = ''pass''\<rparr>"
  have 1: "OverrepresentedSequencesModule_from_module tsv_reader ?m1 = Inr ?r1" by code_simp
  have 2: "BasicStatisticsModule_from_module ?m2 = Inr ?r2" by code_simp
  have 3: "from_module tsv_reader OverrepresentedSequencesModule_class ?m1
             = Inr (OverrepresentedSequencesModule ?r1)"
    by (simp only: from_module.simps 1 sum.case)
  from C8_name_status_preserved [of ?m1 tsv_reader] 3
  have "name_of (OverrepresentedSequencesModule ?r1) = name ?m1" by blast
  moreover have "name ?m1 = ''Overrepresented sequences''" by simp
  ultimately have "name_of (OverrepresentedSequencesModule ?r1) = ''Overrepresented sequences''"
    by (rule trans)
  with 1 2 show ?thesis by (intro conjI)
qed

theorem C9_lookup_absent_witness:
  "lookup_module
     \<lparr>modules = [(''Adapter Content'',
        FastQCModule \<lparr>name = ''Adapter Content'', data = [], status = ''pass''\<rparr>)]\<rparr>
     ''Kmer Content''
   = (Inl KeyError,
      \<lparr>modules = [(''Adapter Content'',
        FastQCModule \<lparr>name = ''Adapter Content'', data = [], status = ''pass''\<rparr>)]\<rparr>)"
  using C9_lookup_absent [of "''Kmer Content''"
      "\<lparr>modules = [(''Adapter Content'',
        FastQCModule \<lparr>name = ''Adapter Content'', data = [], status = ''pass''\<rparr>)]\<rparr>"]
  by (simp add: results_def)

theorem C10_outside_lines_kept_witness:
  "parse_lines tsv_reader init_state
     ([''##FastQC'' @ [tab] @ ''0.11.9'' @ [nl], ''stray  '' @ [nl]]
        @ (''>>Adapter Content'' @ [tab] @ ''pass'' @ [nl])
        # [''#Position'' @ [tab] @ ''x'' @ [nl]] @ [''>>END_MODULE'' @ [nl]])
   = Inr \<lparr>cur_mod = None, data_lines = [],
          result_set = \<lparr>modules = [(''Adapter Content'', FastQCModule
            \<lparr>name = ''Adapter Content'',
             data = ''##FastQC'' @ [tab] @ ''0.11.9'' @ [nl] @ ''stray'' @ [nl]
                      @ ''#Position'' @ [tab] @ ''x'',
             status = ''pass''\<rparr>)]\<rparr>\<rparr>"
proof -
  have 1: "cur_mod init_state = None" by (simp add: init_state_def)
  have 2: "list_all (\<lambda>l. \<not> is_marker l)
             [''##FastQC'' @ [tab] @ ''0.11.9'' @ [nl], ''stray  '' @ [nl]]" by code_simp
  have 3: "is_marker (''>>Adapter Content'' @ [tab] @ ''pass'' @ [nl])" by code_simp
  have 4: "split_tab (removeprefix ''>>'' (rstrip (''>>Adapter Content'' @ [tab] @ ''pass'' @ [nl])))
             = ''Adapter Content'' # ''pass'' # []" by code_simp
  have 5: "list_all (\<lambda>l. \<not> is_marker l) [''#Position'' @ [tab] @ ''x'' @ [nl]]" by code_simp
  have 6: "is_terminator (''>>END_MODULE'' @ [nl])" by code_simp
  have 7: "from_module tsv_reader (get_class ''Adapter Content'')
             \<lparr>name = ''Adapter Content'',
              data = join [nl] (data_lines init_state
                @ map rstrip [''##FastQC'' @ [tab] @ ''0.11.9'' @ [nl], ''stray  '' @ [nl]]
                @ map rstrip [''#Position'' @ [tab] @ ''x'' @ [nl]]),
              status = ''pass''\<rparr>
           = Inr (FastQCModule \<lparr>name = ''Adapter Content'',
               data = ''##FastQC'' @ [tab] @ ''0.11.9'' @ [nl] @ ''stray'' @ [nl]
                      @ ''#Position'' @ [tab] @ ''x'',
               status = ''pass''\<rparr>)" by code_simp
  have 8: "setitem (results (result_set init_state)) ''Adapter Content'' x
             = [(''Adapter Content'', x)]" for x
    by (simp add: init_state_def results_def)
  show ?thesis
    using C10_outside_lines_kept [OF 1 2 3 4 5 6, of tsv_reader]
    by (simp only: 7 8 sum.case)
qed


end
